theory Spec2Isabelle
  imports Main "HOL-Library.Word" "HOL-Library.Signed_Division"
begin

unbundle bit_operations_syntax

section \<open>The ADS7830 server (src/src/ads7830.c)\<close>

text \<open>
  The server maps the eight analog inputs of an ADS7830 converter on an I2C bus to
  variables of a variable server. This theory embeds the functions of
  \<^verbatim>\<open>ads7830.c\<close> that read and publish samples, dispatch notifications, parse
  channel definitions and print the status, and settles the properties stated of them.

  C \<^verbatim>\<open>int\<close> values are modelled as \<open>int\<close>: the only arithmetic the embedded
  functions do on them is a loop counter below 8 and the split of a timer interval into
  seconds and milliseconds, neither of which can leave the range of a C int.
  \<^verbatim>\<open>uint8_t\<close> is \<open>8 word\<close> and \<^verbatim>\<open>uint16_t\<close> is \<open>16 word\<close>.
\<close>

subsection \<open>Constants of headers that are not part of the repository\<close>

text \<open>
  \<^verbatim>\<open>EINVAL\<close>, \<^verbatim>\<open>ENOENT\<close> and \<^verbatim>\<open>ENOTSUP\<close> come from \<^verbatim>\<open>errno.h\<close>,
  \<^verbatim>\<open>SIGRTMIN\<close> from \<^verbatim>\<open>signal.h\<close>, and \<^verbatim>\<open>EOK\<close>, \<^verbatim>\<open>SIG_VAR_CALC\<close>,
  \<^verbatim>\<open>SIG_VAR_PRINT\<close> and \<^verbatim>\<open>VAR_INVALID\<close> from \<^verbatim>\<open>varserver/varserver.h\<close>. Their
  values are not in the source, so every function takes them as a parameter.
\<close>

type_synonym VAR_HANDLE = "32 word"
  \<comment> \<open>the variable server's handle of a variable, an unsigned 32-bit number\<close>

type_synonym VARSERVER_HANDLE = nat
  \<comment> \<open>the opaque pointer \<^verbatim>\<open>VARSERVER_Open\<close> returned\<close>

type_synonym timer_t = int

record platform =
  EOK :: int
  EINVAL :: int
  ENOENT :: int
  ENOTSUP :: int
  SIGRTMIN :: int
  SIG_VAR_CALC :: int
  SIG_VAR_PRINT :: int
  VAR_INVALID :: VAR_HANDLE

definition ADS7830_NUM_CHANNELS :: int where
  "ADS7830_NUM_CHANNELS = 8"

definition TIMER_NOTIFICATION :: "platform \<Rightarrow> int" where
  "TIMER_NOTIFICATION pf = SIGRTMIN pf + 5"

subsection \<open>The controller state\<close>

text \<open>
  \<^verbatim>\<open>struct _ain\<close> and \<^verbatim>\<open>struct _ads7830\<close>. A \<^verbatim>\<open>char *\<close> that may be
  \<^verbatim>\<open>NULL\<close> is a \<open>string option\<close>; the array \<^verbatim>\<open>channels[ADS7830_NUM_CHANNELS]\<close> is a
  list, which every function below indexes only after checking the index against
  \<open>[0, ADS7830_NUM_CHANNELS)\<close>, as the source does.
\<close>

record AIN =
  channel :: int
  name :: "string option"
  hVar :: VAR_HANDLE
  interval :: int
  timer :: timer_t

record ADS7830 =
  running :: bool
  pFileName :: "string option"
  device :: "string option"
  exclusive :: bool
  verbose :: bool
  output_flag :: bool  \<comment> \<open>the field \<^verbatim>\<open>output\<close>\<close>
  fd :: int
  hVarServer :: VARSERVER_HANDLE
  address :: int
  channels :: "AIN list"

subsection \<open>The operating system and the variable server\<close>

text \<open>
  Everything the server does outside its own memory is a call to the C library or to the
  variable server's client library. A call is recorded with its arguments; what it
  returns is decided by the environment, a function of the calls made so far and the call
  at hand, so that every behaviour of the bus, of the timers and of the variable server
  is covered, failures included.
\<close>

datatype vartype = VARTYPE_UINT16

record VarObject =
  vo_type :: vartype
  vo_len :: nat
  vo_ui :: "16 word"

datatype notification = NOTIFY_CALC | NOTIFY_PRINT

text \<open>
  One line of status output: the format string of a \<^verbatim>\<open>dprintf\<close> call of
  \<^verbatim>\<open>PrintStatus\<close> together with its arguments. The voltage of a channel line is the
  floating-point expression \<^verbatim>\<open>((float)data/255.0) * 3.3\<close>, a function of the
  \<^verbatim>\<open>data\<close> argument that the line carries.
\<close>

datatype outline =
    Status_title
      \<comment> \<open>\<^verbatim>\<open>"ADS7830 Status:\n"\<close>\<close>
  | Configuration_file "string option"
      \<comment> \<open>\<^verbatim>\<open>"Configuration File: %s\n"\<close>\<close>
  | Device_line "string option"
      \<comment> \<open>\<^verbatim>\<open>"Device: %s\n"\<close>\<close>
  | Address_line int
      \<comment> \<open>\<^verbatim>\<open>"Address: 0x%02x\n"\<close>\<close>
  | Exclusive_line bool
      \<comment> \<open>\<^verbatim>\<open>"Exclusive: %s\n"\<close>\<close>
  | Verbose_line bool
      \<comment> \<open>\<^verbatim>\<open>"Verbose: %s\n"\<close>\<close>
  | Channels_title
      \<comment> \<open>\<^verbatim>\<open>"Channels:\n"\<close>\<close>
  | Timed_channel int "string option" int "8 word"
      \<comment> \<open>\<^verbatim>\<open>"\tA%d: %s %4d ms %03d %0.2fV\n"\<close>: ch, name, interval, data (and its voltage)\<close>
  | Demand_channel int "string option" "8 word"
      \<comment> \<open>\<^verbatim>\<open>"\tA%d: %s ------- %03d %0.2fV\n"\<close>: ch, name, data (and its voltage)\<close>

datatype call =
    Sys_open string
      \<comment> \<open>\<^verbatim>\<open>open( device, O_RDWR )\<close>\<close>
  | Sys_ioctl_I2C_SLAVE int int
      \<comment> \<open>\<^verbatim>\<open>ioctl( fd, I2C_SLAVE, address )\<close>\<close>
  | Sys_write int "8 word"
      \<comment> \<open>\<^verbatim>\<open>write( fd, &cmd, 1 )\<close>\<close>
  | Sys_read int
      \<comment> \<open>\<^verbatim>\<open>read( fd, data, 1 )\<close>\<close>
  | Sys_close int
  | Sys_dprintf int outline
  | Sys_timer_create int int
      \<comment> \<open>\<^verbatim>\<open>timer_create\<close> on \<^verbatim>\<open>CLOCK_REALTIME\<close>: signal number, \<^verbatim>\<open>sival_int\<close>\<close>
  | Sys_timer_settime timer_t int int int int
      \<comment> \<open>timer, \<^verbatim>\<open>it_interval\<close> seconds and nanoseconds, \<^verbatim>\<open>it_value\<close> seconds and nanoseconds\<close>
  | Var_Set VARSERVER_HANDLE VAR_HANDLE VarObject
  | Var_Notify VARSERVER_HANDLE VAR_HANDLE notification
  | Var_FindByName VARSERVER_HANDLE string
  | Var_OpenPrintSession VARSERVER_HANDLE int
  | Var_ClosePrintSession VARSERVER_HANDLE int int

text \<open>
  What a call gives back: its return value, the value of \<^verbatim>\<open>errno\<close> once it has
  returned, and the value it stored through its output pointer, if it stored one (the
  byte of \<^verbatim>\<open>read\<close>, the timer of \<^verbatim>\<open>timer_create\<close>, the descriptor of
  \<^verbatim>\<open>VAR_OpenPrintSession\<close>).
\<close>

record reply =
  ret :: int
  err :: int
  outv :: "int option"

type_synonym env = "(call \<times> reply) list \<Rightarrow> call \<Rightarrow> reply"

record world =
  hist :: "(call \<times> reply) list"
  errno :: int

definition do_call :: "env \<Rightarrow> call \<Rightarrow> world \<Rightarrow> reply \<times> world" where
  "do_call env c w =
     (let r = env (hist w) c
      in (r, \<lparr>hist = hist w @ [(c, r)], errno = err r\<rparr>))"

definition calls_since :: "world \<Rightarrow> world \<Rightarrow> call list" where
  \<comment> \<open>the calls made between an earlier world and a later one\<close>
  "calls_since w w' = map fst (drop (length (hist w)) (hist w'))"

subsection \<open>ReadChannel\<close>

definition chval :: "8 word list" where
  "chval = [0, 4, 1, 5, 2, 6, 3, 7]"

definition single_ended :: "8 word" where
  "single_ended = 0x80"

definition dac_on_ref_off :: "8 word" where
  "dac_on_ref_off = 0x04"

definition command_byte :: "int \<Rightarrow> 8 word" where
  \<comment> \<open>\<^verbatim>\<open>ch = chval[channel] << 4; cmd = single_ended | dac_on_ref_off | ch;\<close>\<close>
  "command_byte chan =
     (let ch = push_bit 4 (chval ! nat chan)
      in single_ended OR dac_on_ref_off OR ch)"

text \<open>
  \<^verbatim>\<open>ReadChannel( pADS7830, channel, data )\<close>. The pointer \<^verbatim>\<open>data\<close> is \<open>None\<close>
  when it is \<^verbatim>\<open>NULL\<close> and otherwise holds the byte it points to; the function returns
  its result code, the byte \<^verbatim>\<open>data\<close> points to afterwards, and the world. The
  return values of \<^verbatim>\<open>write\<close>, \<^verbatim>\<open>read\<close> and \<^verbatim>\<open>close\<close> are not looked at.
\<close>

definition ReadChannel ::
  "platform \<Rightarrow> env \<Rightarrow> ADS7830 option \<Rightarrow> int \<Rightarrow> 8 word option \<Rightarrow> world
     \<Rightarrow> int \<times> 8 word option \<times> world" where
  "ReadChannel pf env pADS7830 chan data w =
     (case pADS7830 of
        None \<Rightarrow> (EINVAL pf, data, w)
      | Some st \<Rightarrow>
         (case device st of
            None \<Rightarrow> (EINVAL pf, data, w)
          | Some dev \<Rightarrow>
             (case data of
                None \<Rightarrow> (EINVAL pf, data, w)
              | Some d \<Rightarrow>
                 if 0 \<le> chan \<and> chan < ADS7830_NUM_CHANNELS then
                   let cmd = command_byte chan;
                       (fd1, do_close, w1) =
                          (if fd st = -1 then (fd st, False, w)
                           else let (r, w') = do_call env (Sys_open dev) w
                                in (ret r, ret r \<noteq> -1, w'))
                   in if fd1 \<noteq> -1 then
                        let (r2, w2) = do_call env (Sys_ioctl_I2C_SLAVE fd1 (address st)) w1;
                            (result, d', w3) =
                               (if 0 \<le> ret r2 then
                                  let (r3, w') = do_call env (Sys_write fd1 cmd) w2;
                                      (r4, w'') = do_call env (Sys_read fd1) w'
                                  in (EOK pf,
                                      (case outv r4 of None \<Rightarrow> d | Some v \<Rightarrow> word_of_int v),
                                      w'')
                                else (errno w2, d, w2));
                            w4 = (if do_close then snd (do_call env (Sys_close fd1) w3) else w3)
                        in (result, Some d', w4)
                      else (errno w1, Some d, w1)
                 else (EINVAL pf, data, w))))"

subsection \<open>SampleChannel\<close>

text \<open>
  \<^verbatim>\<open>SampleChannel( pADS7830, channel )\<close>. The local \<^verbatim>\<open>data\<close> is declared
  without an initial value; \<open>data0\<close> is whatever it holds when \<^verbatim>\<open>ReadChannel\<close>
  is given its address.
\<close>

definition SampleChannel ::
  "platform \<Rightarrow> env \<Rightarrow> ADS7830 option \<Rightarrow> int \<Rightarrow> 8 word \<Rightarrow> world \<Rightarrow> int \<times> world" where
  "SampleChannel pf env pADS7830 chan data0 w =
     (case pADS7830 of
        None \<Rightarrow> (EINVAL pf, w)
      | Some st \<Rightarrow>
         if 0 \<le> chan \<and> chan < ADS7830_NUM_CHANNELS then
           let h = hVar (channels st ! nat chan)
           in if h \<noteq> VAR_INVALID pf then
                (case ReadChannel pf env (Some st) chan (Some data0) w of
                   (result, data, w1) \<Rightarrow>
                     if result = EOK pf then
                       let var = \<lparr>vo_type = VARTYPE_UINT16, vo_len = 2,
                                  vo_ui = ucast (case data of None \<Rightarrow> data0 | Some d \<Rightarrow> d)\<rparr>;
                           (r, w2) = do_call env (Var_Set (hVarServer st) h var) w1
                       in (ret r, w2)
                     else (result, w1))
              else (EINVAL pf, w)
         else (EINVAL pf, w))"

subsection \<open>FindChannel\<close>

function FindChannel_loop :: "ADS7830 \<Rightarrow> VAR_HANDLE \<Rightarrow> int \<Rightarrow> int" where
  \<comment> \<open>the \<^verbatim>\<open>for\<close> loop with its \<^verbatim>\<open>break\<close>, from index \<open>i\<close> on\<close>
  "FindChannel_loop st h i =
     (if i < ADS7830_NUM_CHANNELS then
        (if hVar (channels st ! nat i) = h then i else FindChannel_loop st h (i + 1))
      else -1)"
  by pat_completeness auto
termination
  by (relation "measure (\<lambda>(st, h, i). nat (ADS7830_NUM_CHANNELS - i))") auto

declare FindChannel_loop.simps [simp del]

definition FindChannel :: "platform \<Rightarrow> ADS7830 option \<Rightarrow> VAR_HANDLE \<Rightarrow> int" where
  "FindChannel pf pADS7830 h =
     (case pADS7830 of
        None \<Rightarrow> -1
      | Some st \<Rightarrow> if h \<noteq> VAR_INVALID pf then FindChannel_loop st h 0 else -1)"

subsection \<open>PrintStatus\<close>

function PrintStatus_loop ::
  "platform \<Rightarrow> env \<Rightarrow> ADS7830 \<Rightarrow> int \<Rightarrow> int \<Rightarrow> world \<Rightarrow> world" where
  \<comment> \<open>the \<^verbatim>\<open>for\<close> loop over the channels, from index \<open>ch\<close> on; \<open>out_fd\<close> is the
      parameter \<^verbatim>\<open>fd\<close>\<close>
  "PrintStatus_loop pf env st out_fd ch w =
     (if ch < ADS7830_NUM_CHANNELS then
        let c = channels st ! nat ch
        in (case ReadChannel pf env (Some st) ch (Some 0) w of
              (_, data, w1) \<Rightarrow>
                let d = (case data of None \<Rightarrow> 0 | Some v \<Rightarrow> v);
                    line = (if interval c \<noteq> 0 then Timed_channel ch (name c) (interval c) d
                            else Demand_channel ch (name c) d);
                    (_, w2) = do_call env (Sys_dprintf out_fd line) w1
                in PrintStatus_loop pf env st out_fd (ch + 1) w2)
      else w)"
  by pat_completeness auto
termination
  by (relation "measure (\<lambda>(pf, env, st, out_fd, ch, w). nat (ADS7830_NUM_CHANNELS - ch))") auto

declare PrintStatus_loop.simps [simp del]

text \<open>
  \<^verbatim>\<open>PrintStatus( pADS7830, fd )\<close>. The variable \<^verbatim>\<open>result\<close> is initialised to
  \<^verbatim>\<open>EINVAL\<close> and returned; nothing in between assigns it.
\<close>

definition PrintStatus ::
  "platform \<Rightarrow> env \<Rightarrow> ADS7830 option \<Rightarrow> int \<Rightarrow> world \<Rightarrow> int \<times> world" where
  "PrintStatus pf env pADS7830 out_fd w =
     (let result = EINVAL pf
      in case pADS7830 of
           None \<Rightarrow> (result, w)
         | Some st \<Rightarrow>
            if out_fd \<noteq> -1 then
              let (_, w1) = do_call env (Sys_dprintf out_fd Status_title) w;
                  (_, w2) = do_call env (Sys_dprintf out_fd (Configuration_file (pFileName st))) w1;
                  (_, w3) = do_call env (Sys_dprintf out_fd (Device_line (device st))) w2;
                  (_, w4) = do_call env (Sys_dprintf out_fd (Address_line (address st))) w3;
                  (_, w5) = do_call env (Sys_dprintf out_fd (Exclusive_line (exclusive st))) w4;
                  (_, w6) = do_call env (Sys_dprintf out_fd (Verbose_line (verbose st))) w5;
                  (_, w7) = do_call env (Sys_dprintf out_fd Channels_title) w6
              in (result, PrintStatus_loop pf env st out_fd 0 w7)
            else (result, w))"

subsection \<open>HandleSignal\<close>

text \<open>
  \<^verbatim>\<open>HandleSignal( pADS7830, signum, id )\<close>. The function declares a local
  \<^verbatim>\<open>int sig\<close> without an initial value and compares that local, not the parameter
  \<^verbatim>\<open>signum\<close>, with the three notification numbers; \<open>sig0\<close> is whatever the local
  holds. \<open>data0\<close> is passed on to \<^verbatim>\<open>SampleChannel\<close>. The local \<^verbatim>\<open>fd\<close> starts as
  -1 and is the output pointer of \<^verbatim>\<open>VAR_OpenPrintSession\<close>.
\<close>

definition HandleSignal ::
  "platform \<Rightarrow> env \<Rightarrow> ADS7830 option \<Rightarrow> int \<Rightarrow> int \<Rightarrow> int \<Rightarrow> 8 word \<Rightarrow> world
     \<Rightarrow> int \<times> world" where
  "HandleSignal pf env pADS7830 signum ident sig0 data0 w =
     (case pADS7830 of
        None \<Rightarrow> (EINVAL pf, w)
      | Some st \<Rightarrow>
         if sig0 = SIG_VAR_CALC pf then
           let h = (word_of_int ident :: VAR_HANDLE);
               ch = FindChannel pf (Some st) h
           in if 0 \<le> ch \<and> ch < ADS7830_NUM_CHANNELS
              then SampleChannel pf env (Some st) ch data0 w
              else (ENOENT pf, w)
         else if sig0 = SIG_VAR_PRINT pf then
           let (r, w1) = do_call env (Var_OpenPrintSession (hVarServer st) ident) w;
               out_fd = (case outv r of None \<Rightarrow> -1 | Some v \<Rightarrow> v);
               (_, w2) = PrintStatus pf env (Some st) out_fd w1;
               (_, w3) = do_call env (Var_ClosePrintSession (hVarServer st) ident out_fd) w2
           in (EOK pf, w3)
         else if sig0 = TIMER_NOTIFICATION pf then
           let ch = ident
           in if 0 \<le> ch \<and> ch < ADS7830_NUM_CHANNELS
              then SampleChannel pf env (Some st) ch data0 w
              else (ENOENT pf, w)
         else (ENOTSUP pf, w))"

subsection \<open>CreateTimer and ParseChannel\<close>









subsection \<open>Reading the record of calls\<close>











subsection \<open>An example platform, state and environments\<close>

text \<open>
  The error numbers of Linux, \<^verbatim>\<open>SIGRTMIN\<close> as glibc gives it, and example values
  for the constants of the variable server.
\<close>

definition example_platform :: platform where
  "example_platform =
     \<lparr>EOK = 0, EINVAL = 22, ENOENT = 2, ENOTSUP = 95, SIGRTMIN = 34,
      SIG_VAR_CALC = 41, SIG_VAR_PRINT = 43, VAR_INVALID = 0\<rparr>"

definition cleared_AIN :: AIN where
  \<comment> \<open>a channel after the \<^verbatim>\<open>memset\<close> of \<^verbatim>\<open>main\<close>\<close>
  "cleared_AIN = \<lparr>channel = 0, name = None, hVar = 0, interval = 0, timer = 0\<rparr>"

definition example_state :: ADS7830 where
  \<comment> \<open>not exclusive; channel 3 bound to handle 7 and sampled every 1000 ms\<close>
  "example_state =
     \<lparr>running = False, pFileName = Some ''ads7830.json'', device = Some ''/dev/i2c-1'',
      exclusive = False, verbose = False, output_flag = False, fd = 0, hVarServer = 1,
      address = 0x4b,
      channels = (replicate 8 cleared_AIN)
        [3 := \<lparr>channel = 0, name = Some ''/HW/ADS7830/A3'', hVar = 7, interval = 1000,
                timer = 103\<rparr>]\<rparr>"

definition exclusive_state :: ADS7830 where
  \<comment> \<open>as \<^verbatim>\<open>main\<close> leaves the state under exclusive access: the device is open on
      descriptor 3\<close>
  "exclusive_state = example_state\<lparr>exclusive := True, fd := 3\<rparr>"

definition start_world :: world where
  "start_world = \<lparr>hist = [], errno = 0\<rparr>"

definition env_ok :: env where
  \<comment> \<open>every call succeeds: \<^verbatim>\<open>open\<close> gives descriptor 5, the converter answers 0xAB,
      every variable name resolves to handle 7, a print session writes to descriptor 6\<close>
  "env_ok h c =
     (case c of
        Sys_open dev \<Rightarrow> \<lparr>ret = 5, err = 0, outv = None\<rparr>
      | Sys_write f b \<Rightarrow> \<lparr>ret = 1, err = 0, outv = None\<rparr>
      | Sys_read f \<Rightarrow> \<lparr>ret = 1, err = 0, outv = Some 0xAB\<rparr>
      | Sys_timer_create s v \<Rightarrow> \<lparr>ret = 0, err = 0, outv = Some (100 + v)\<rparr>
      | Var_FindByName s n \<Rightarrow> \<lparr>ret = 7, err = 0, outv = None\<rparr>
      | Var_OpenPrintSession s i \<Rightarrow> \<lparr>ret = 0, err = 0, outv = Some 6\<rparr>
      | _ \<Rightarrow> \<lparr>ret = 0, err = 0, outv = None\<rparr>)"





section \<open>Properties\<close>

subsection \<open>The record of calls\<close>

lemma do_call_eq:
  "do_call env c w =
     (env (hist w) c,
      \<lparr>hist = hist w @ [(c, env (hist w) c)], errno = err (env (hist w) c)\<rparr>)"
  by (simp add: do_call_def Let_def)










subsection \<open>The examples\<close>

lemma example_state_simps:
  "device example_state = Some ''/dev/i2c-1''" "fd example_state = 0"
  "address example_state = 0x4b" "hVarServer example_state = 1"
  "device exclusive_state = Some ''/dev/i2c-1''" "fd exclusive_state = 3"
  "address exclusive_state = 0x4b" "hVarServer exclusive_state = 1"
  "exclusive exclusive_state"
  by (simp_all add: example_state_def exclusive_state_def)




subsection \<open>ReadChannel\<close>

lemma ReadChannel_out_of_range:
  "chan < 0 \<or> ADS7830_NUM_CHANNELS \<le> chan \<Longrightarrow>
     ReadChannel pf env p chan data w = (EINVAL pf, data, w)"
  by (auto simp: ReadChannel_def split: option.splits)

text \<open>The paths of \<^verbatim>\<open>ReadChannel\<close> for a channel in range, one by one.\<close>

lemma ReadChannel_unfold:
  assumes "0 \<le> chan" and "chan < ADS7830_NUM_CHANNELS" and "device st = Some dev"
  shows "ReadChannel pf env (Some st) chan (Some d) w =
    (if fd st = -1 then (errno w, Some d, w)
     else
       let r1 = env (hist w) (Sys_open dev);
           h1 = hist w @ [(Sys_open dev, r1)]
       in if ret r1 = -1 then (err r1, Some d, \<lparr>hist = h1, errno = err r1\<rparr>)
          else
            let c2 = Sys_ioctl_I2C_SLAVE (ret r1) (address st);
                r2 = env h1 c2;
                h2 = h1 @ [(c2, r2)]
            in if ret r2 < 0 then
                 let r5 = env h2 (Sys_close (ret r1))
                 in (err r2, Some d,
                     \<lparr>hist = h2 @ [(Sys_close (ret r1), r5)], errno = err r5\<rparr>)
               else
                 let c3 = Sys_write (ret r1) (command_byte chan);
                     r3 = env h2 c3;
                     h3 = h2 @ [(c3, r3)];
                     r4 = env h3 (Sys_read (ret r1));
                     h4 = h3 @ [(Sys_read (ret r1), r4)];
                     r5 = env h4 (Sys_close (ret r1))
                 in (EOK pf, Some (case outv r4 of None \<Rightarrow> d | Some v \<Rightarrow> word_of_int v),
                     \<lparr>hist = h4 @ [(Sys_close (ret r1), r5)], errno = err r5\<rparr>))"
  using assms by (simp add: ReadChannel_def do_call_eq Let_def)



text \<open>
  C2, as amended. For every channel index in [0,7] the command byte is the single-ended
  bit, the AD-on/reference-off value \<open>0x04\<close> and the select field shifted left by four,
  the select field following the table 0,4,1,5,2,6,3,7. Bit 7 and bit 2 of the byte are
  set and bit 3 is clear: the power-down field in bits 2-3 holds the value 01.
\<close>

theorem command_byte_layout:
  assumes "0 \<le> c" and "c < ADS7830_NUM_CHANNELS"
  shows "command_byte c = 0x80 OR 0x04 OR push_bit 4 ([0, 4, 1, 5, 2, 6, 3, 7] ! nat c)
         \<and> bit (command_byte c) 7 \<and> bit (command_byte c) 2 \<and> \<not> bit (command_byte c) 3"
proof -
  from assms have "nat c \<in> {0, 1, 2, 3, 4, 5, 6, 7}"
    by (auto simp: ADS7830_NUM_CHANNELS_def)
  then show ?thesis
    by (auto simp: command_byte_def chval_def single_ended_def dac_on_ref_off_def)
qed

text \<open>Channel 3 selects the physical input 5: the command byte is \<open>0xD4\<close>.\<close>

theorem command_byte_layout_witness:
  "(0::int) \<le> 3 \<and> 3 < ADS7830_NUM_CHANNELS \<and> command_byte 3 = 0xD4"
  using command_byte_layout [where c = 3] by (simp add: ADS7830_NUM_CHANNELS_def)

text \<open>
  C2 as stated fails: the command byte of channel 0 is \<open>0x84\<close>, where bit 3 is not set.
\<close>

theorem command_byte_bit3_counterexample:
  "\<not> (bit (command_byte 0) 7 \<and> bit (command_byte 0) 2 \<and> bit (command_byte 0) 3)"
  by (simp add: command_byte_def chval_def single_ended_def dac_on_ref_off_def)

text \<open>
  C3. The claim is that a controller holding an exclusive long-lived connection reuses
  it. In the state \<^verbatim>\<open>main\<close> leaves behind under exclusive access (the device open on
  descriptor 3), \<^verbatim>\<open>ReadChannel\<close> opens the device again, runs the transaction on the
  new descriptor 5 and closes it; descriptor 3 is never used. The test
  \<^verbatim>\<open>pADS7830->fd == -1\<close> selects the branch whose comment says the connection was
  already opened.
\<close>

theorem ReadChannel_exclusive_reopens:
  "exclusive exclusive_state \<and> fd exclusive_state = 3 \<and>
   calls_since start_world
     (snd (snd (ReadChannel example_platform env_ok (Some exclusive_state) 3 (Some 0)
        start_world)))
   = [Sys_open ''/dev/i2c-1'', Sys_ioctl_I2C_SLAVE 5 0x4b, Sys_write 5 0xD4, Sys_read 5,
      Sys_close 5]"
  by (simp add: ReadChannel_unfold [where dev = "''/dev/i2c-1''"] example_state_simps
      ADS7830_NUM_CHANNELS_def env_ok_def start_world_def calls_since_def Let_def
      command_byte_def chval_def single_ended_def dac_on_ref_off_def)




subsection \<open>SampleChannel\<close>



subsection \<open>PrintStatus\<close>








text \<open>
  C10. \<^verbatim>\<open>PrintStatus\<close> returns \<^verbatim>\<open>EINVAL\<close> on every call, whatever the state, the
  descriptor and the outcome of the writes; where \<^verbatim>\<open>EINVAL\<close> and \<^verbatim>\<open>EOK\<close> are
  different numbers it therefore never returns \<^verbatim>\<open>EOK\<close>.
\<close>

theorem PrintStatus_returns_EINVAL:
  "fst (PrintStatus pf env p out_fd w) = EINVAL pf \<and>
   (EINVAL pf \<noteq> EOK pf \<longrightarrow> fst (PrintStatus pf env p out_fd w) \<noteq> EOK pf)"
  by (simp add: PrintStatus_def Let_def split: option.splits prod.splits)

theorem PrintStatus_returns_EINVAL_witness:
  "EINVAL example_platform \<noteq> EOK example_platform \<and>
   fst (PrintStatus example_platform env_ok (Some example_state) 6 start_world)
     \<noteq> EOK example_platform"
  using PrintStatus_returns_EINVAL [where pf = example_platform and env = env_ok
      and p = "Some example_state" and out_fd = 6 and w = start_world]
  by (simp add: example_platform_def)

subsection \<open>HandleSignal\<close>

lemma HandleSignal_ignores_signum:
  "HandleSignal pf env p signum ident sig0 data0 w
     = HandleSignal pf env p signum' ident sig0 data0 w"
  by (simp add: HandleSignal_def)

text \<open>
  C1. The claim is that a notification is routed by its received class. The received
  class is the parameter \<^verbatim>\<open>signum\<close>, which \<^verbatim>\<open>HandleSignal\<close> never reads: it
  compares the local \<^verbatim>\<open>sig\<close>, which has no value assigned. With a timer notification
  for channel 3 received and the local holding 0, the outcome is \<^verbatim>\<open>ENOTSUP\<close> and
  no call is made: channel 3 is neither read nor published.
\<close>

theorem HandleSignal_timer_not_routed:
  "HandleSignal example_platform env_ok (Some example_state)
     (TIMER_NOTIFICATION example_platform) 3 0 0 start_world
   = (ENOTSUP example_platform, start_world)"
  by (simp add: HandleSignal_def example_platform_def TIMER_NOTIFICATION_def)

text \<open>
  C6, as amended. For every channel index outside [0,7], \<^verbatim>\<open>ReadChannel\<close> returns
  \<^verbatim>\<open>EINVAL\<close>, and \<^verbatim>\<open>HandleSignal\<close>, where it takes the branch of the timer
  notification with that index as the payload, returns \<^verbatim>\<open>ENOENT\<close>; so does its branch
  of the calculation request when \<^verbatim>\<open>FindChannel\<close> finds no channel in [0,7]. In each
  case the world is left as it was: no call is made, on the bus or elsewhere.
\<close>

theorem out_of_range_channel:
  assumes "chan < 0 \<or> ADS7830_NUM_CHANNELS \<le> chan"
    and "TIMER_NOTIFICATION pf \<noteq> SIG_VAR_CALC pf"
    and "TIMER_NOTIFICATION pf \<noteq> SIG_VAR_PRINT pf"
  shows "ReadChannel pf env p chan data w = (EINVAL pf, data, w) \<and>
         HandleSignal pf env (Some st) signum chan (TIMER_NOTIFICATION pf) data0 w
           = (ENOENT pf, w) \<and>
         (FindChannel pf (Some st) (word_of_int ident) = chan \<longrightarrow>
            HandleSignal pf env (Some st) signum ident (SIG_VAR_CALC pf) data0 w
              = (ENOENT pf, w))"
  using assms by (auto simp: ReadChannel_out_of_range HandleSignal_def)

theorem out_of_range_channel_witness:
  "ReadChannel example_platform env_ok (Some example_state) 8 (Some 0) start_world
     = (EINVAL example_platform, Some 0, start_world) \<and>
   HandleSignal example_platform env_ok (Some example_state) (TIMER_NOTIFICATION example_platform)
     8 (TIMER_NOTIFICATION example_platform) 0 start_world
     = (ENOENT example_platform, start_world)"
  using out_of_range_channel [where chan = 8 and pf = example_platform and env = env_ok
      and p = "Some example_state" and data = "Some 0" and w = start_world
      and st = example_state and signum = "TIMER_NOTIFICATION example_platform"
      and ?data0.0 = 0]
  by (simp add: ADS7830_NUM_CHANNELS_def TIMER_NOTIFICATION_def example_platform_def)

text \<open>
  C6 as stated fails for \<^verbatim>\<open>ReadChannel\<close>: for channel 8 its result is
  \<^verbatim>\<open>EINVAL\<close>, not \<^verbatim>\<open>ENOENT\<close>.
\<close>

theorem ReadChannel_EINVAL_counterexample:
  "fst (ReadChannel example_platform env_ok (Some example_state) 8 (Some 0) start_world)
     \<noteq> ENOENT example_platform"
  by (simp add: ReadChannel_out_of_range ADS7830_NUM_CHANNELS_def example_platform_def)

subsection \<open>ParseChannel\<close>





end
